theory Spec2Isabelle
  imports Complex_Main "HOL-Library.Multiset" "HOL-Library.Char_ord" "HOL-Library.List_Lexorder"
begin

section \<open>The data frame\<close>

text \<open>
  \<^verbatim>\<open>app.py\<close> is one script over a pandas data frame \<^verbatim>\<open>df = pd.read_csv(uploaded)\<close> and
  a column label \<^verbatim>\<open>target\<close> picked from \<^verbatim>\<open>df.columns\<close>. A column is its label and its
  values; the constructor of the values fixes the dtype, so that a column of numbers cannot
  hold a string. Floating-point numbers are the rationals they denote (as reals), a missing
  value (NaN, None) is \<open>None\<close>. Comparison, absolute value, counting, sorting and selection
  are exact on such numbers; where the library divides or takes a root the model computes
  the exact real, and the text of each theorem says whether it depends on that.

  The dtypes are those \<^verbatim>\<open>read_csv\<close> infers (int64, float64, uint64 for integers beyond
  the int64 range, bool, object), and category and datetime64, which the script's column
  selections name or leave out. A category column is a column of labels, all of them
  observed.
\<close>

datatype numkind = Int64 | Float64 | UInt64

datatype labkind = Object | Category

datatype series =
    Numeric numkind "real option list"
  | Boolean "bool option list"
  | Labels labkind "string option list"
  | Datetime64 "int option list"

record column =
  label :: string
  data :: series

type_synonym dataframe = "column list"

datatype error = KeyError | TypeError

text \<open>\<^verbatim>\<open>pd.api.types.is_numeric_dtype\<close>: integers, floats and also bool.\<close>

fun is_numeric_dtype :: "series \<Rightarrow> bool" where
  "is_numeric_dtype (Numeric _ _) = True"
| "is_numeric_dtype (Boolean _) = True"
| "is_numeric_dtype (Labels _ _) = False"
| "is_numeric_dtype (Datetime64 _) = False"

text \<open>The dtype tests behind \<^verbatim>\<open>select_dtypes\<close>: \<^verbatim>\<open>"number"\<close> is every integer and float
  dtype and not bool; \<^verbatim>\<open>["int64", "float64"]\<close> is those two dtypes only.\<close>

fun is_number :: "series \<Rightarrow> bool" where
  "is_number (Numeric _ _) = True"
| "is_number _ = False"

fun is_int64_float64 :: "series \<Rightarrow> bool" where
  "is_int64_float64 (Numeric Int64 _) = True"
| "is_int64_float64 (Numeric Float64 _) = True"
| "is_int64_float64 _ = False"

fun is_object_category :: "series \<Rightarrow> bool" where
  "is_object_category (Labels _ _) = True"
| "is_object_category _ = False"

text \<open>\<^verbatim>\<open>df.select_dtypes(include=...).columns\<close>: the labels of the columns of that dtype, in
  the frame's order.\<close>

definition select_dtypes :: "(series \<Rightarrow> bool) \<Rightarrow> dataframe \<Rightarrow> string list" where
  "select_dtypes include df = map label (filter (\<lambda>c. include (data c)) df)"

text \<open>\<^verbatim>\<open>Index.drop(label)\<close>: every entry with that label goes; a label that is not there
  raises KeyError.\<close>

definition index_drop :: "string list \<Rightarrow> string \<Rightarrow> error + string list" where
  "index_drop idx l = (if l \<in> set idx then Inr (filter (\<lambda>x. x \<noteq> l) idx) else Inl KeyError)"

text \<open>\<^verbatim>\<open>df[name]\<close>: the column with that label, KeyError without one.\<close>

definition getitem :: "dataframe \<Rightarrow> string \<Rightarrow> error + series" where
  "getitem df l = (case find (\<lambda>c. label c = l) df of None \<Rightarrow> Inl KeyError | Some c \<Rightarrow> Inr (data c))"

subsection \<open>Lines 22 to 31: the kind of the target and the feature lists\<close>

definition is_target_numeric :: "dataframe \<Rightarrow> string \<Rightarrow> error + bool" where
  "is_target_numeric df target =
     (case getitem df target of Inl e \<Rightarrow> Inl e | Inr s \<Rightarrow> Inr (is_numeric_dtype s))"

definition all_num :: "dataframe \<Rightarrow> string list" where
  "all_num df = select_dtypes is_number df"

definition all_cat :: "dataframe \<Rightarrow> string list" where
  "all_cat df = select_dtypes is_object_category df"

definition num_features :: "dataframe \<Rightarrow> string \<Rightarrow> error + string list" where
  "num_features df target =
     (if target \<in> set (all_num df) then index_drop (all_num df) target else Inr (all_num df))"

definition cat_features :: "dataframe \<Rightarrow> string \<Rightarrow> error + string list" where
  "cat_features df target =
     (if target \<in> set (all_cat df) then index_drop (all_cat df) target else Inr (all_cat df))"

section \<open>Sorting a series or a frame by values\<close>

text \<open>
  \<^verbatim>\<open>sort_values\<close> of a Series and of a DataFrame by one column both go through pandas'
  \<^verbatim>\<open>nargsort\<close> with \<^verbatim>\<open>na_position="last"\<close>: the entries with a value are sorted, for
  a descending sort by reversing them, sorting upwards and reversing the result, and the
  entries without a value follow in their old order. The sort \<open>sort_key\<close> keeps equal keys
  in their old order. The script leaves pandas' default \<^verbatim>\<open>kind="quicksort"\<close>, which promises
  no order among equal keys; no theorem below depends on the order of equal keys.
\<close>

definition nargsort :: "('a \<Rightarrow> real option) \<Rightarrow> bool \<Rightarrow> 'a list \<Rightarrow> 'a list" where
  "nargsort key ascending xs =
     (let non_nans = filter (\<lambda>x. key x \<noteq> None) xs;
          nans = filter (\<lambda>x. key x = None) xs;
          k = (\<lambda>x. case key x of Some v \<Rightarrow> v | None \<Rightarrow> 0)
      in (if ascending then sort_key k non_nans else rev (sort_key k (rev non_nans))) @ nans)"

text \<open>The order of the result: \<open>u\<close> may stand before \<open>v\<close> when \<open>v\<close> is NaN, or both are
  numbers in the order asked for.\<close>

definition ranks_before :: "bool \<Rightarrow> real option \<Rightarrow> real option \<Rightarrow> bool" where
  "ranks_before ascending u v =
     (case v of None \<Rightarrow> True
      | Some b \<Rightarrow> (case u of None \<Rightarrow> False | Some a \<Rightarrow> if ascending then a \<le> b else b \<le> a))"

text \<open>A Series is the list of its (label, value) entries.\<close>

type_synonym 'l series_of = "('l \<times> real option) list"

definition sort_values :: "bool \<Rightarrow> 'l series_of \<Rightarrow> 'l series_of" where
  "sort_values ascending s = nargsort snd ascending s"

text \<open>\<^verbatim>\<open>Series.drop(label)\<close>, as \<open>index_drop\<close>.\<close>

definition series_drop :: "'l series_of \<Rightarrow> 'l \<Rightarrow> error + 'l series_of" where
  "series_drop s l =
     (if l \<in> fst ` set s then Inr (filter (\<lambda>e. fst e \<noteq> l) s) else Inl KeyError)"

section \<open>Correlation\<close>

text \<open>
  \<^verbatim>\<open>DataFrame.corr()\<close> is pandas'. Its result is a square frame over the columns of the
  frame it is called on, the cell in row \<open>a\<close> and column \<open>b\<close> holding the Pearson
  coefficient of these two columns, NaN where the library finds none. The coefficients are
  a parameter of the model, a table \<open>pearson a b\<close> of what the library computed for the
  columns labelled \<open>a\<close> and \<open>b\<close> of \<^verbatim>\<open>df\<close>; the theorems hold for every table.
\<close>

type_synonym corr_table = "string \<Rightarrow> string \<Rightarrow> real option"

text \<open>A frame of numbers: its rows, each with its index label and its (column, value) cells.\<close>

type_synonym frame = "(string \<times> (string \<times> real option) list) list"

text \<open>Lines 35 to 37, on the frame \<^verbatim>\<open>df[cols]\<close>.\<close>

definition get_correlation :: "corr_table \<Rightarrow> string list \<Rightarrow> frame" where
  "get_correlation pearson cols = map (\<lambda>a. (a, map (\<lambda>b. (b, pearson a b)) cols)) cols"

subsection \<open>Lines 137 to 143: the top K features\<close>

text \<open>
  \<^verbatim>\<open>df.select_dtypes(include=["int64", "float64"]).corr()[target]\<close> is the column \<open>target\<close>
  of the correlation frame over the int64 and float64 columns, KeyError when the target is
  not one of them. \<^verbatim>\<open>head(k)\<close> is \<open>take k\<close> for the \<open>k\<close> of the slider, from 5 to 20.
\<close>

definition corr :: "dataframe \<Rightarrow> corr_table \<Rightarrow> string \<Rightarrow> nat \<Rightarrow> error + string series_of" where
  "corr df pearson target k =
     (let cols = select_dtypes is_int64_float64 df in
      if target \<notin> set cols then Inl KeyError
      else case series_drop (map (\<lambda>c. (c, pearson c target)) cols) target of
             Inl e \<Rightarrow> Inl e
           | Inr s \<Rightarrow> Inr (take k (sort_values False s)))"

subsection \<open>Lines 175 to 190: multicollinearity\<close>

text \<open>The literal \<^verbatim>\<open>0.8\<close> is the double nearest to 4/5, a little above it; \<^verbatim>\<open>1.0\<close> is 1.\<close>

definition threshold :: real where
  "threshold = 3602879701896397 / 4503599627370496"

text \<open>Comparison of a cell with a number: False on NaN.\<close>

definition gt :: "real option \<Rightarrow> real \<Rightarrow> bool" where
  "gt v c = (case v of None \<Rightarrow> False | Some x \<Rightarrow> x > c)"

definition lt :: "real option \<Rightarrow> real \<Rightarrow> bool" where
  "lt v c = (case v of None \<Rightarrow> False | Some x \<Rightarrow> x < c)"

definition frame_abs :: "frame \<Rightarrow> frame" where
  "frame_abs fr = map (\<lambda>(a, row). (a, map (\<lambda>(b, v). (b, map_option abs v)) row)) fr"

text \<open>\<^verbatim>\<open>fr.where(cond)\<close>: a cell that fails the condition becomes NaN.\<close>

definition frame_where :: "(real option \<Rightarrow> bool) \<Rightarrow> frame \<Rightarrow> frame" where
  "frame_where cond fr =
     map (\<lambda>(a, row). (a, map (\<lambda>(b, v). (b, if cond v then v else None)) row)) fr"

text \<open>\<^verbatim>\<open>fr.stack()\<close> as pandas 2 does it by default: row by row, one entry for every cell
  that is not NaN, labelled by the pair of its row and column.\<close>

definition stack :: "frame \<Rightarrow> (string \<times> string) series_of" where
  "stack fr =
     concat (map (\<lambda>(a, row). map (\<lambda>(b, v). ((a, b), v)) (filter (\<lambda>(b, v). v \<noteq> None) row)) fr)"

text \<open>A cell of the frame after \<^verbatim>\<open>abs\<close> and \<^verbatim>\<open>where\<close>.\<close>

definition cell :: "corr_table \<Rightarrow> string \<Rightarrow> string \<Rightarrow> real option" where
  "cell pearson a b =
     (let v = map_option abs (pearson a b) in if gt v threshold \<and> lt v 1 then v else None)"

definition high_corr_pairs :: "corr_table \<Rightarrow> string list \<Rightarrow> (string \<times> string) series_of" where
  "high_corr_pairs pearson feats =
     (let corr_matrix = frame_abs (get_correlation pearson feats)
      in sort_values False
           (stack (frame_where (\<lambda>v. gt v threshold \<and> lt v 1) corr_matrix)))"

text \<open>What a section puts on the page: a note (\<^verbatim>\<open>st.info\<close>) or a table (\<^verbatim>\<open>st.dataframe\<close>).\<close>

datatype 'a shown = Info string | Dataframe 'a

definition multicollinearity ::
  "dataframe \<Rightarrow> corr_table \<Rightarrow> string \<Rightarrow> error + (string \<times> string) series_of shown" where
  "multicollinearity df pearson target =
     (case num_features df target of
        Inl e \<Rightarrow> Inl e
      | Inr feats \<Rightarrow>
          if length feats < 2
          then Inr (Info ''Not enough numerical features for correlation analysis.'')
          else Inr (Dataframe (high_corr_pairs pearson feats)))"

section \<open>A categorical feature against the target\<close>

subsection \<open>Grouping\<close>

text \<open>
  \<^verbatim>\<open>df.groupby(cat_feature)[target]\<close> with pandas' defaults: the rows whose key is missing
  are left out, there is one group for each key that remains, the groups come in ascending
  order of the key, and a group is the target's cells of its rows, missing ones included.
\<close>

fun keyed_rows :: "string option list \<Rightarrow> 'v list \<Rightarrow> (string \<times> 'v) list" where
  "keyed_rows (Some k # ks) (v # vs) = (k, v) # keyed_rows ks vs"
| "keyed_rows (None # ks) (v # vs) = keyed_rows ks vs"
| "keyed_rows _ _ = []"

definition groupby :: "string option list \<Rightarrow> 'v list \<Rightarrow> (string \<times> 'v list) list" where
  "groupby keys vals =
     (let rows = keyed_rows keys vals
      in map (\<lambda>c. (c, map snd (filter (\<lambda>r. fst r = c) rows))) (sort (remdups (map fst rows))))"

text \<open>The aggregations skip the missing cells. The median of an even number of values is the
  mean of the two in the middle; \<^verbatim>\<open>std\<close> is the sample deviation (\<^verbatim>\<open>ddof=1\<close>), NaN for
  fewer than two values.\<close>

definition notna :: "real option list \<Rightarrow> real list" where
  "notna cells = List.map_filter (\<lambda>v. v) cells"

definition median_agg :: "real option list \<Rightarrow> real option" where
  "median_agg cells =
     (let s = sort (notna cells); n = length s
      in if n = 0 then None
         else if odd n then Some (s ! (n div 2))
         else Some ((s ! (n div 2 - 1) + s ! (n div 2)) / 2))"

definition std_agg :: "real option list \<Rightarrow> real option" where
  "std_agg cells =
     (let xs = notna cells; n = length xs
      in if n \<le> 1 then None
         else let m = sum_list xs / real n
              in Some (sqrt (sum_list (map (\<lambda>x. (x - m)\<^sup>2) xs) / real (n - 1))))"

definition count_agg :: "real option list \<Rightarrow> nat" where
  "count_agg cells = length (notna cells)"

text \<open>The cells of a column as a grouping key and as a target of the aggregations. A bool
  target counts as 0 and 1. The script groups by a feature from \<open>cat_features\<close> only, and
  aggregates the target only when \<open>is_numeric_dtype\<close> holds of it; the TypeError of the
  other cases is never reached from the script.\<close>

fun key_cells :: "series \<Rightarrow> error + string option list" where
  "key_cells (Labels _ ks) = Inr ks"
| "key_cells _ = Inl TypeError"

fun number_cells :: "series \<Rightarrow> error + real option list" where
  "number_cells (Numeric _ vs) = Inr vs"
| "number_cells (Boolean bs) = Inr (map (map_option (\<lambda>b. if b then 1 else 0)) bs)"
| "number_cells _ = Inl TypeError"

text \<open>The two columns of a grouped analysis; \<^verbatim>\<open>st.selectbox\<close> gives None when it has no
  option to offer, and grouping by None raises TypeError.\<close>

definition grouped_columns ::
  "dataframe \<Rightarrow> string option \<Rightarrow> string \<Rightarrow> error + (string option list \<times> real option list)" where
  "grouped_columns df cat_feature target =
     (case cat_feature of
        None \<Rightarrow> Inl TypeError
      | Some f \<Rightarrow>
          (case getitem df f of
             Inl e \<Rightarrow> Inl e
           | Inr fc \<Rightarrow>
               (case getitem df target of
                  Inl e \<Rightarrow> Inl e
                | Inr tc \<Rightarrow>
                    (case key_cells fc of
                       Inl e \<Rightarrow> Inl e
                     | Inr keys \<Rightarrow>
                         (case number_cells tc of
                            Inl e \<Rightarrow> Inl e
                          | Inr vals \<Rightarrow> Inr (keys, vals))))))"

subsection \<open>Line 201: the median of the target by category\<close>

definition impact :: "dataframe \<Rightarrow> string option \<Rightarrow> string \<Rightarrow> error + string series_of" where
  "impact df cat_feature target =
     (case grouped_columns df cat_feature target of
        Inl e \<Rightarrow> Inl e
      | Inr (keys, vals) \<Rightarrow>
          Inr (sort_values True (map (\<lambda>(c, cells). (c, median_agg cells)) (groupby keys vals))))"

subsection \<open>Lines 212 and 213: median, deviation and count by category\<close>

record stats_row =
  category :: string
  median_val :: "real option"
  std_val :: "real option"
  count_val :: nat

definition agg :: "(string \<times> real option list) list \<Rightarrow> stats_row list" where
  "agg groups =
     map (\<lambda>(c, cells). \<lparr>category = c, median_val = median_agg cells,
                         std_val = std_agg cells, count_val = count_agg cells\<rparr>) groups"

definition stats :: "dataframe \<Rightarrow> string option \<Rightarrow> string \<Rightarrow> error + stats_row list" where
  "stats df cat_feature target =
     (case grouped_columns df cat_feature target of
        Inl e \<Rightarrow> Inl e
      | Inr (keys, vals) \<Rightarrow> Inr (nargsort median_val True (agg (groupby keys vals))))"

subsection \<open>Statements in sequence\<close>

text \<open>
  The script is a sequence of statements: what follows a statement runs with what the
  statement has shown once it has returned, and an exception ends the run there. The call
  \<^verbatim>\<open>st.stop()\<close>, which ends a run too, occurs at lines 13 and 20 only.
\<close>

definition and_then :: "error + 'a \<Rightarrow> ('a \<Rightarrow> error + 'b) \<Rightarrow> error + 'b" where
  "and_then r rest = (case r of Inl e \<Rightarrow> Inl e | Inr x \<Rightarrow> rest x)"

subsection \<open>Lines 291 to 295: the categorical branch\<close>

text \<open>Line 291 drops the target from the object and category columns without the test
  that lines 30 and 31 make first.\<close>

definition cat_for_class :: "dataframe \<Rightarrow> string \<Rightarrow> error + string list" where
  "cat_for_class df target = index_drop (select_dtypes is_object_category df) target"

text \<open>
  \<^verbatim>\<open>pd.crosstab(index, columns, normalize="index")\<close>: the rows with a missing cell in either
  column are left out; there is a row for each label of the first column that remains and a
  column for each label of the second, both in ascending order; a cell counts the rows
  with that pair of labels and is divided by the sum of its row, and a cell that is NaN
  after the division is set to 0.
\<close>

fun complete_pairs :: "string option list \<Rightarrow> string option list \<Rightarrow> (string \<times> string) list" where
  "complete_pairs (Some a # as) (Some b # bs) = (a, b) # complete_pairs as bs"
| "complete_pairs (_ # as) (_ # bs) = complete_pairs as bs"
| "complete_pairs _ _ = []"

type_synonym table = "(string \<times> (string \<times> real) list) list"

definition crosstab :: "string option list \<Rightarrow> string option list \<Rightarrow> table" where
  "crosstab index columns =
     (let pairs = complete_pairs index columns;
          rs = sort (remdups (map fst pairs));
          cs = sort (remdups (map snd pairs))
      in map (\<lambda>r. (r, let counts = map (\<lambda>c. (c, count_list pairs (r, c))) cs;
                          total = sum_list (map snd counts)
                      in map (\<lambda>(c, n). (c, if total = 0 then 0 else real n / real total)) counts))
           rs)"

text \<open>One row of the table: the shares of the column labels \<open>cs\<close> among the pairs
  with the row label \<open>r\<close>.\<close>

definition row_of :: "(string \<times> string) list \<Rightarrow> string list \<Rightarrow> string \<Rightarrow> (string \<times> real) list" where
  "row_of pairs cs r =
     (let counts = map (\<lambda>c. (c, count_list pairs (r, c))) cs;
          total = sum_list (map snd counts)
      in map (\<lambda>(c, n). (c, if total = 0 then 0 else real n / real total)) counts)"

definition sort_index :: "table \<Rightarrow> table" where
  "sort_index t = sort_key fst t"

text \<open>\<^verbatim>\<open>df[None]\<close> raises KeyError. Both columns are columns of labels whenever line 291 has
  returned and the feature is one of its list.\<close>

definition class_crosstab :: "dataframe \<Rightarrow> string option \<Rightarrow> string \<Rightarrow> error + table" where
  "class_crosstab df cat_feature target =
     (case cat_feature of
        None \<Rightarrow> Inl KeyError
      | Some f \<Rightarrow>
          (case getitem df f of
             Inl e \<Rightarrow> Inl e
           | Inr fc \<Rightarrow>
               (case getitem df target of
                  Inl e \<Rightarrow> Inl e
                | Inr tc \<Rightarrow>
                    (case key_cells fc of
                       Inl e \<Rightarrow> Inl e
                     | Inr index \<Rightarrow>
                         (case key_cells tc of
                            Inl e \<Rightarrow> Inl e
                          | Inr columns \<Rightarrow> Inr (sort_index (crosstab index columns)))))))"

section \<open>Example frames\<close>

text \<open>The scenario of the specification: age, income, city and churned.\<close>

definition churn_df :: dataframe where
  "churn_df =
     [\<lparr>label = ''age'', data = Numeric Int64 [Some 31, Some 45, Some 27]\<rparr>,
      \<lparr>label = ''income'', data = Numeric Float64 [Some 50.5, None, Some 31]\<rparr>,
      \<lparr>label = ''city'', data = Labels Category [Some ''Pune'', Some ''Agra'', Some ''Pune'']\<rparr>,
      \<lparr>label = ''churned'', data = Labels Category [Some ''no'', Some ''yes'', Some ''no'']\<rparr>]"

text \<open>Three columns that are permutations of 1 to 5, and their Pearson coefficients:
  9/10 for x and y, 3/5 for x and t, 7/10 for y and t.\<close>

definition perm_df :: dataframe where
  "perm_df =
     [\<lparr>label = ''x'', data = Numeric Int64 [Some 1, Some 2, Some 3, Some 4, Some 5]\<rparr>,
      \<lparr>label = ''y'', data = Numeric Int64 [Some 1, Some 2, Some 3, Some 5, Some 4]\<rparr>,
      \<lparr>label = ''t'', data = Numeric Int64 [Some 3, Some 1, Some 2, Some 5, Some 4]\<rparr>]"

definition perm_pearson :: corr_table where
  "perm_pearson a b =
     (if a = b then Some 1
      else if {a, b} = {''x'', ''y''} then Some (9 / 10)
      else if {a, b} = {''x'', ''t''} then Some (3 / 5)
      else if {a, b} = {''y'', ''t''} then Some (7 / 10)
      else None)"

text \<open>
  Two frames on the permutations f = 8, 9, 6, 7, 4, 5, 3, 2, 1 and g = 6, 4, 3, 2, 5, 1, 8,
  7, 9 of 1 to 9. In the first the target is 1 to 9 times \<open>2\<^sup>6\<^sup>0\<close>, a uint64 column, and f
  and g are int64 features. In the second the target is 1 to 9, f is an int64 feature and g
  times \<open>2\<^sup>6\<^sup>0\<close> is a uint64 feature. In both, \<^verbatim>\<open>df.corr()\<close> of pandas 2 gives -0.95 for f
  and the target and 0.49999999999999994 for g and the target.
\<close>

definition big_target_df :: dataframe where
  "big_target_df =
     [\<lparr>label = ''t'', data = Numeric UInt64
         [Some 1152921504606846976, Some 2305843009213693952, Some 3458764513820540928,
          Some 4611686018427387904, Some 5764607523034234880, Some 6917529027641081856,
          Some 8070450532247928832, Some 9223372036854775808, Some 10376293541461622784]\<rparr>,
      \<lparr>label = ''f'', data = Numeric Int64 [Some 8, Some 9, Some 6, Some 7, Some 4, Some 5, Some 3, Some 2, Some 1]\<rparr>,
      \<lparr>label = ''g'', data = Numeric Int64 [Some 6, Some 4, Some 3, Some 2, Some 5, Some 1, Some 8, Some 7, Some 9]\<rparr>]"

definition big_feature_df :: dataframe where
  "big_feature_df =
     [\<lparr>label = ''t'', data = Numeric Int64 [Some 1, Some 2, Some 3, Some 4, Some 5, Some 6, Some 7, Some 8, Some 9]\<rparr>,
      \<lparr>label = ''f'', data = Numeric Int64 [Some 8, Some 9, Some 6, Some 7, Some 4, Some 5, Some 3, Some 2, Some 1]\<rparr>,
      \<lparr>label = ''g'', data = Numeric UInt64
         [Some 6917529027641081856, Some 4611686018427387904, Some 3458764513820540928,
          Some 2305843009213693952, Some 5764607523034234880, Some 1152921504606846976,
          Some 9223372036854775808, Some 8070450532247928832, Some 10376293541461622784]\<rparr>]"

text \<open>A frame with one numeric feature beside the numeric target; the coefficient of size
  and price is 0.5.\<close>

definition shop_df :: dataframe where
  "shop_df =
     [\<lparr>label = ''region'', data = Labels Object  [Some ''A'', Some ''B'', Some ''A'']\<rparr>,
      \<lparr>label = ''size'', data = Numeric Int64 [Some 1, Some 2, Some 3]\<rparr>,
      \<lparr>label = ''price'', data = Numeric Float64 [Some 1, Some 3, Some 2]\<rparr>]"

definition shop_pearson :: corr_table where
  "shop_pearson a b =
     (if a \<in> {''size'', ''price''} \<and> b \<in> {''size'', ''price''}
      then (if a = b then Some 1 else Some (1 / 2)) else None)"

text \<open>A frame with a uint64 column, as \<^verbatim>\<open>read_csv\<close> makes one from integers beyond the
  int64 range; the values of b are doubles, so the coefficients are those of the values.\<close>

definition wide_df :: dataframe where
  "wide_df =
     [\<lparr>label = ''t'', data = Numeric Int64 [Some 1, Some 2, Some 3]\<rparr>,
      \<lparr>label = ''a'', data = Numeric Int64 [Some 1, Some 3, Some 2]\<rparr>,
      \<lparr>label = ''b'', data = Numeric UInt64
         [Some 9223372036854779904, Some 9223372036854777856, Some 9223372036854775808]\<rparr>]"

definition wide_pearson :: corr_table where
  "wide_pearson a b =
     (if a = b then Some 1
      else if {a, b} = {''a'', ''t''} then Some (1 / 2)
      else if {a, b} = {''b'', ''t''} then Some (- 1)
      else if {a, b} = {''a'', ''b''} then Some (- 1 / 2)
      else None)"

text \<open>A frame with a bool column, as \<^verbatim>\<open>read_csv\<close> makes one from True and False.\<close>

definition flag_df :: dataframe where
  "flag_df =
     [\<lparr>label = ''flag'', data = Boolean [Some True, Some False, Some True]\<rparr>,
      \<lparr>label = ''a'', data = Numeric Int64 [Some 1, Some 3, Some 2]\<rparr>]"

text \<open>The scenario of the specification: region A with ten rows, region B with one, and
  the numeric target price.\<close>

definition region_keys :: "string option list" where
  "region_keys =
     [Some ''A'', Some ''A'', Some ''B'', Some ''A'', Some ''A'', Some ''A'',
      Some ''A'', Some ''A'', Some ''A'', Some ''A'', Some ''A'']"

definition price_cells :: "real option list" where
  "price_cells =
     [Some 10, Some 12, Some 7, Some 11, Some 13, Some 10,
      Some 12, Some 14, Some 9, Some 10, Some 11]"

definition region_df :: dataframe where
  "region_df =
     [\<lparr>label = ''region'', data = Labels Object region_keys\<rparr>,
      \<lparr>label = ''price'', data = Numeric Float64 price_cells\<rparr>]"

text \<open>A target that is neither numeric nor a column of labels.\<close>

definition dated_df :: dataframe where
  "dated_df =
     [\<lparr>label = ''city'', data = Labels Object [Some ''Pune'', Some ''Agra'']\<rparr>,
      \<lparr>label = ''signup'', data = Datetime64 [Some 1700000000, Some 1700086400]\<rparr>]"

section \<open>Theorems\<close>

subsection \<open>Sorting\<close>


lemma mset_nargsort: "mset (nargsort key asc xs) = mset xs"
proof -
  have "mset (filter (\<lambda>x. key x \<noteq> None) xs) + mset (filter (\<lambda>x. key x = None) xs) = mset xs"
    by (induction xs) auto
  then show ?thesis
    by (simp add: nargsort_def Let_def)
qed

lemma set_nargsort: "set (nargsort key asc xs) = set xs"
  using mset_nargsort [of key asc xs] by (metis set_mset_mset)

lemma length_nargsort: "length (nargsort key asc xs) = length xs"
  using mset_nargsort [of key asc xs] by (metis size_mset)

lemma distinct_map_nargsort: "distinct (map f (nargsort key asc xs)) = distinct (map f xs)"
proof -
  have "mset (map f (nargsort key asc xs)) = mset (map f xs)"
    by (simp add: mset_nargsort)
  then show ?thesis
    by (rule mset_eq_imp_distinct_iff)
qed

lemma sorted_nargsort:
  "sorted_wrt (\<lambda>x y. ranks_before asc (key x) (key y)) (nargsort key asc xs)"
proof -
  let ?k = "\<lambda>x. case key x of Some v \<Rightarrow> v | None \<Rightarrow> 0"
  let ?non = "filter (\<lambda>x. key x \<noteq> None) xs"
  let ?nan = "filter (\<lambda>x. key x = None) xs"
  let ?R = "\<lambda>x y. ranks_before asc (key x) (key y)"
  have keyed: "\<And>x y. key x \<noteq> None \<Longrightarrow> key y \<noteq> None \<Longrightarrow>
      ?R x y = (if asc then ?k x \<le> ?k y else ?k y \<le> ?k x)"
    by (auto simp: ranks_before_def split: option.splits)
  have up: "sorted_wrt (\<lambda>x y. ?k x \<le> ?k y) (sort_key ?k ys)" for ys
    using sorted_sort_key [of ?k ys] by (simp add: sorted_map)
  have head_part: "sorted_wrt ?R (if asc then sort_key ?k ?non else rev (sort_key ?k (rev ?non)))"
  proof (cases asc)
    case True
    have "sorted_wrt (\<lambda>x y. ?k x \<le> ?k y) (sort_key ?k ?non)" by (rule up)
    then have "sorted_wrt ?R (sort_key ?k ?non)"
      by (rule sorted_wrt_mono_rel [rotated]) (use True keyed in auto)
    with True show ?thesis by simp
  next
    case False
    have "sorted_wrt (\<lambda>x y. ?k x \<le> ?k y) (sort_key ?k (rev ?non))" by (rule up)
    then have "sorted_wrt (\<lambda>x y. ?k y \<le> ?k x) (rev (sort_key ?k (rev ?non)))"
      by (simp add: sorted_wrt_rev)
    then have "sorted_wrt ?R (rev (sort_key ?k (rev ?non)))"
      by (rule sorted_wrt_mono_rel [rotated]) (use False keyed in auto)
    with False show ?thesis by simp
  qed
  have tail_part: "sorted_wrt ?R ?nan"
    by (rule sorted_wrt_mono_rel [of _ "\<lambda>x y. True"]) (auto simp: ranks_before_def)
  have cross: "?R x y" if "y \<in> set ?nan" for x y
    using that by (simp add: ranks_before_def)
  show ?thesis
    unfolding nargsort_def Let_def sorted_wrt_append
    using head_part tail_part cross by blast
qed

subsection \<open>The pairs shown as multicollinearity risks\<close>

lemma stack_table:
  "stack (map (\<lambda>a. (a, map (\<lambda>b. (b, c a b)) ys)) xs) =
     map (\<lambda>(a, b). ((a, b), c a b)) (filter (\<lambda>(a, b). c a b \<noteq> None) (List.product xs ys))"
proof (induction xs)
  case Nil
  then show ?case by (simp add: stack_def)
next
  case (Cons x xs)
  have "map (\<lambda>(b, v). ((x, b), v)) (filter (\<lambda>(b, v). v \<noteq> None) (map (\<lambda>b. (b, c x b)) ys))
      = map (\<lambda>(a, b). ((a, b), c a b)) (filter (\<lambda>(a, b). c a b \<noteq> None) (map (Pair x) ys))"
    by (induction ys) auto
  with Cons show ?case
    by (simp add: stack_def)
qed

lemma masked_frame:
  "frame_where (\<lambda>v. gt v threshold \<and> lt v 1) (frame_abs (get_correlation pearson feats)) =
     map (\<lambda>a. (a, map (\<lambda>b. (b, cell pearson a b)) feats)) feats"
  by (simp add: frame_where_def frame_abs_def get_correlation_def cell_def Let_def comp_def)

lemma cell_Some:
  "cell pearson a b = Some y \<longleftrightarrow> (\<exists>x. pearson a b = Some x \<and> y = \<bar>x\<bar> \<and> threshold < \<bar>x\<bar> \<and> \<bar>x\<bar> < 1)"
  by (cases "pearson a b") (auto simp: cell_def gt_def lt_def)

lemma high_corr_pairs_eq:
  "high_corr_pairs pearson feats =
     sort_values False (map (\<lambda>(a, b). ((a, b), cell pearson a b))
        (filter (\<lambda>(a, b). cell pearson a b \<noteq> None) (List.product feats feats)))"
  by (simp add: high_corr_pairs_def Let_def masked_frame stack_table)

lemma set_high_corr_pairs:
  "((a, b), v) \<in> set (high_corr_pairs pearson feats) \<longleftrightarrow>
     a \<in> set feats \<and> b \<in> set feats \<and>
     (\<exists>x. pearson a b = Some x \<and> v = Some \<bar>x\<bar> \<and> threshold < \<bar>x\<bar> \<and> \<bar>x\<bar> < 1)"
proof -
  have "((a, b), v) \<in> set (high_corr_pairs pearson feats) \<longleftrightarrow>
      a \<in> set feats \<and> b \<in> set feats \<and> cell pearson a b = v \<and> v \<noteq> None"
    by (auto simp: high_corr_pairs_eq sort_values_def set_nargsort)
  also have "\<dots> \<longleftrightarrow> a \<in> set feats \<and> b \<in> set feats \<and>
     (\<exists>x. pearson a b = Some x \<and> v = Some \<bar>x\<bar> \<and> threshold < \<bar>x\<bar> \<and> \<bar>x\<bar> < 1)"
    using cell_Some [of pearson a b] by (cases v) auto
  finally show ?thesis .
qed

lemma distinct_high_corr_pairs:
  assumes "distinct feats"
  shows "distinct (map fst (high_corr_pairs pearson feats))"
proof -
  have "map fst (map (\<lambda>(a, b). ((a, b), cell pearson a b)) ps) = ps" for ps :: "(string \<times> string) list"
    by (induction ps) auto
  moreover have "distinct (filter (\<lambda>(a, b). cell pearson a b \<noteq> None) (List.product feats feats))"
    using assms by (simp add: distinct_product)
  ultimately show ?thesis
    by (simp add: high_corr_pairs_eq sort_values_def distinct_map_nargsort)
qed

lemma sorted_high_corr_pairs:
  "sorted_wrt (\<lambda>e f. ranks_before False (snd e) (snd f)) (high_corr_pairs pearson feats)"
  by (simp add: high_corr_pairs_eq sort_values_def sorted_nargsort)

lemma threshold_above: "4 / 5 < threshold"
  by (simp add: threshold_def)

lemma distinct_all_num: "distinct (map label df) \<Longrightarrow> distinct (all_num df)"
  by (simp add: all_num_def select_dtypes_def distinct_map_filter)

subsection \<open>The feature lists\<close>

lemma num_features_eq:
  "num_features df target = Inr (filter (\<lambda>x. x \<noteq> target) (all_num df))"
proof (cases "target \<in> set (all_num df)")
  case True
  then show ?thesis by (simp add: num_features_def index_drop_def)
next
  case False
  then have "filter (\<lambda>x. x \<noteq> target) (all_num df) = all_num df"
    by (intro filter_True) auto
  with False show ?thesis by (simp add: num_features_def)
qed

lemma cat_features_eq:
  "cat_features df target = Inr (filter (\<lambda>x. x \<noteq> target) (all_cat df))"
proof (cases "target \<in> set (all_cat df)")
  case True
  then show ?thesis by (simp add: cat_features_def index_drop_def)
next
  case False
  then have "filter (\<lambda>x. x \<noteq> target) (all_cat df) = all_cat df"
    by (intro filter_True) auto
  with False show ?thesis by (simp add: cat_features_def)
qed

lemma number_not_object_category: "is_number s \<Longrightarrow> \<not> is_object_category s"
  by (cases s) simp_all

lemma all_num_all_cat_disjoint:
  assumes "distinct (map label df)"
  shows "set (all_num df) \<inter> set (all_cat df) = {}"
proof (rule ccontr)
  assume "set (all_num df) \<inter> set (all_cat df) \<noteq> {}"
  then obtain l where n: "l \<in> set (all_num df)" and c: "l \<in> set (all_cat df)"
    by blast
  from n obtain c1 where c1: "c1 \<in> set df" "label c1 = l" "is_number (data c1)"
    by (auto simp: all_num_def select_dtypes_def)
  from c obtain c2 where c2: "c2 \<in> set df" "label c2 = l" "is_object_category (data c2)"
    by (auto simp: all_cat_def select_dtypes_def)
  from assms c1(1,2) c2(1,2) have "c1 = c2"
    by (metis distinct_map inj_onD)
  with c1(3) c2(3) show False
    by (simp add: number_not_object_category)
qed

lemma getitem_distinct:
  assumes "distinct (map label df)" and "c \<in> set df"
  shows "getitem df (label c) = Inr (data c)"
proof -
  have "find (\<lambda>d. label d = label c) df = Some c"
    using assms
  proof (induction df)
    case Nil
    then show ?case by simp
  next
    case (Cons d df)
    then show ?case by (cases "d = c") force+
  qed
  then show ?thesis
    by (simp add: getitem_def)
qed

lemma selected_column:
  assumes "distinct (map label df)" and "l \<in> set (select_dtypes include df)"
  shows "\<exists>s. getitem df l = Inr s \<and> include s"
proof -
  from assms(2) obtain c where "c \<in> set df" "label c = l" "include (data c)"
    by (auto simp: select_dtypes_def)
  with getitem_distinct [OF assms(1), of c] show ?thesis
    by auto
qed

lemma unselected_column:
  assumes "getitem df l = Inr s" and "\<not> include s"
    and "distinct (map label df)"
  shows "l \<notin> set (select_dtypes include df)"
proof
  assume "l \<in> set (select_dtypes include df)"
  from selected_column [OF assms(3) this] assms(1,2) show False
    by auto
qed

lemma cat_feature_is_labels:
  assumes "distinct (map label df)" and "cat_features df target = Inr feats" and "f \<in> set feats"
  shows "\<exists>kind keys. getitem df f = Inr (Labels kind keys)"
proof -
  from assms(2,3) have "f \<in> set (select_dtypes is_object_category df)"
    by (auto simp: cat_features_eq all_cat_def)
  from selected_column [OF assms(1) this] obtain s
    where s: "getitem df f = Inr s" "is_object_category s" by blast
  then show ?thesis
    by (cases s) auto
qed

text \<open>
  C2. For a frame with unique column labels and any target, the classification returns two
  lists (it never raises), the numeric and the categorical features have no label in
  common, and the target is in neither.
\<close>

theorem classify_partition:
  assumes "distinct (map label df)"
  shows "\<exists>ns cs. num_features df target = Inr ns \<and> cat_features df target = Inr cs
           \<and> set ns \<inter> set cs = {} \<and> target \<notin> set ns \<and> target \<notin> set cs"
proof -
  let ?ns = "filter (\<lambda>x. x \<noteq> target) (all_num df)"
  let ?cs = "filter (\<lambda>x. x \<noteq> target) (all_cat df)"
  have "set ?ns \<inter> set ?cs \<subseteq> set (all_num df) \<inter> set (all_cat df)"
    by auto
  with all_num_all_cat_disjoint [OF assms] have "set ?ns \<inter> set ?cs = {}"
    by blast
  moreover have "target \<notin> set ?ns" "target \<notin> set ?cs"
    by simp_all
  ultimately show ?thesis
    using num_features_eq [of df target] cat_features_eq [of df target] by blast
qed

theorem classify_partition_witness:
  "distinct (map label churn_df) \<and>
   (\<exists>ns cs. num_features churn_df ''churned'' = Inr ns \<and> cat_features churn_df ''churned'' = Inr cs
      \<and> set ns \<inter> set cs = {} \<and> ''churned'' \<notin> set ns \<and> ''churned'' \<notin> set cs)"
proof -
  have h: "distinct (map label churn_df)"
    by code_simp
  from classify_partition [OF h, of "''churned''"] h show ?thesis
    by simp
qed

subsection \<open>Multicollinearity\<close>

text \<open>
  C1, as the specification has it, fails: on the frame of x, y and the target t, where x and
  y have the coefficient 9/10, the section shows the pair twice, as (x, y) and as (y, x).
\<close>

theorem both_orderings_counterexample:
  "multicollinearity perm_df perm_pearson ''t'' =
     Inr (Dataframe [((''x'', ''y''), Some (9 / 10)), ((''y'', ''x''), Some (9 / 10))])"
  by code_simp

text \<open>
  C1, amended. For a frame with unique column labels and at least two numeric features, the
  section shows a table with exactly the entries ((a, b), |r|) for features a and b whose
  coefficient r has threshold < |r| < 1. So every value shown lies strictly between 0.8 and
  1.0, the table is in descending order of the value, and no ordered pair (a, b) is shown
  twice. The two orderings of a pair are two entries: when the coefficients are symmetric,
  (b, a) is shown with the same value wherever (a, b) is.
\<close>

theorem high_corr_pairs_in_range:
  assumes "distinct (map label df)"
    and "num_features df target = Inr feats"
    and "2 \<le> length feats"
  shows "\<exists>res. multicollinearity df pearson target = Inr (Dataframe res)
    \<and> (\<forall>a b v. ((a, b), v) \<in> set res \<longleftrightarrow>
          a \<in> set feats \<and> b \<in> set feats \<and>
          (\<exists>x. pearson a b = Some x \<and> v = Some \<bar>x\<bar> \<and> threshold < \<bar>x\<bar> \<and> \<bar>x\<bar> < 1))
    \<and> (\<forall>e \<in> set res. \<exists>y. snd e = Some y \<and> 4 / 5 < y \<and> y < 1)
    \<and> distinct (map fst res)
    \<and> sorted_wrt (\<lambda>e f. ranks_before False (snd e) (snd f)) res
    \<and> ((\<forall>a b. pearson a b = pearson b a) \<longrightarrow>
          (\<forall>a b v. ((a, b), v) \<in> set res \<longrightarrow> ((b, a), v) \<in> set res))"
proof -
  let ?res = "high_corr_pairs pearson feats"
  have shown: "multicollinearity df pearson target = Inr (Dataframe ?res)"
    using assms(2,3) by (simp add: multicollinearity_def)
  have "feats = filter (\<lambda>x. x \<noteq> target) (all_num df)"
    using assms(2) by (simp add: num_features_eq)
  with assms(1) have "distinct feats"
    by (simp add: distinct_all_num)
  then have once: "distinct (map fst ?res)"
    by (rule distinct_high_corr_pairs)
  have range: "\<exists>y. snd e = Some y \<and> 4 / 5 < y \<and> y < 1" if "e \<in> set ?res" for e
  proof -
    obtain a b v where e: "e = ((a, b), v)"
      by (metis surj_pair)
    with that obtain x where "v = Some \<bar>x\<bar>" "threshold < \<bar>x\<bar>" "\<bar>x\<bar> < 1"
      by (auto simp: set_high_corr_pairs)
    with e threshold_above show ?thesis
      by auto
  qed
  have sym: "((b, a), v) \<in> set ?res"
    if "\<forall>a b. pearson a b = pearson b a" and "((a, b), v) \<in> set ?res" for a b v
    using that by (auto simp: set_high_corr_pairs)
  show ?thesis
    using shown set_high_corr_pairs [of _ _ _ pearson feats] range once
      sorted_high_corr_pairs [of pearson feats] sym
    by (intro exI [of _ ?res] conjI allI ballI impI) blast+
qed

theorem high_corr_pairs_in_range_witness:
  "distinct (map label perm_df) \<and> num_features perm_df ''t'' = Inr [''x'', ''y'']
   \<and> 2 \<le> length [''x'', ''y''] \<and> (\<forall>a b. perm_pearson a b = perm_pearson b a)
   \<and> (\<exists>res. multicollinearity perm_df perm_pearson ''t'' = Inr (Dataframe res)
    \<and> (\<forall>a b v. ((a, b), v) \<in> set res \<longleftrightarrow>
          a \<in> set [''x'', ''y''] \<and> b \<in> set [''x'', ''y''] \<and>
          (\<exists>x. perm_pearson a b = Some x \<and> v = Some \<bar>x\<bar> \<and> threshold < \<bar>x\<bar> \<and> \<bar>x\<bar> < 1))
    \<and> (\<forall>e \<in> set res. \<exists>y. snd e = Some y \<and> 4 / 5 < y \<and> y < 1)
    \<and> distinct (map fst res)
    \<and> sorted_wrt (\<lambda>e f. ranks_before False (snd e) (snd f)) res
    \<and> (\<forall>a b v. ((a, b), v) \<in> set res \<longrightarrow> ((b, a), v) \<in> set res))"
proof -
  have h1: "distinct (map label perm_df)"
    by code_simp
  have h2: "num_features perm_df ''t'' = Inr [''x'', ''y'']"
    by code_simp
  have h3: "2 \<le> length [''x'', ''y'']"
    by simp
  have h4: "\<forall>a b. perm_pearson a b = perm_pearson b a"
    by (simp add: perm_pearson_def insert_commute)
  from high_corr_pairs_in_range [OF h1 h2 h3, of perm_pearson] h4
  obtain res where "multicollinearity perm_df perm_pearson ''t'' = Inr (Dataframe res)
    \<and> (\<forall>a b v. ((a, b), v) \<in> set res \<longleftrightarrow>
          a \<in> set [''x'', ''y''] \<and> b \<in> set [''x'', ''y''] \<and>
          (\<exists>x. perm_pearson a b = Some x \<and> v = Some \<bar>x\<bar> \<and> threshold < \<bar>x\<bar> \<and> \<bar>x\<bar> < 1))
    \<and> (\<forall>e \<in> set res. \<exists>y. snd e = Some y \<and> 4 / 5 < y \<and> y < 1)
    \<and> distinct (map fst res)
    \<and> sorted_wrt (\<lambda>e f. ranks_before False (snd e) (snd f)) res
    \<and> (\<forall>a b v. ((a, b), v) \<in> set res \<longrightarrow> ((b, a), v) \<in> set res)"
    by blast
  with h1 h2 h3 h4 show ?thesis
    by blast
qed

subsection \<open>The top K features\<close>

lemma corr_eq:
  assumes "target \<in> set (select_dtypes is_int64_float64 df)"
  shows "corr df pearson target k =
     Inr (take k (sort_values False (filter (\<lambda>e. fst e \<noteq> target)
        (map (\<lambda>c. (c, pearson c target)) (select_dtypes is_int64_float64 df)))))"
proof -
  have "target \<in> fst ` set (map (\<lambda>c. (c, pearson c target)) (select_dtypes is_int64_float64 df))"
    using assms by force
  with assms show ?thesis
    by (simp add: corr_def series_drop_def Let_def)
qed

lemma corr_KeyError:
  "target \<notin> set (select_dtypes is_int64_float64 df) \<Longrightarrow> corr df pearson target k = Inl KeyError"
  by (simp add: corr_def Let_def)

lemma ranked_entries:
  "filter (\<lambda>e. fst e \<noteq> target) (map (\<lambda>c. (c, pearson c target)) cols) =
     map (\<lambda>c. (c, pearson c target)) (filter (\<lambda>c. c \<noteq> target) cols)"
  by (induction cols) auto

lemma corr_ranks_int64_float64:
  assumes "target \<in> set (select_dtypes is_int64_float64 df)"
  shows "\<exists>res. corr df pearson target k = Inr res
     \<and> length res = min k (length (filter (\<lambda>c. c \<noteq> target) (select_dtypes is_int64_float64 df)))
     \<and> (length (filter (\<lambda>c. c \<noteq> target) (select_dtypes is_int64_float64 df)) \<le> k \<longrightarrow>
          mset (map fst res) = mset (filter (\<lambda>c. c \<noteq> target) (select_dtypes is_int64_float64 df)))"
proof -
  let ?fs = "filter (\<lambda>c. c \<noteq> target) (select_dtypes is_int64_float64 df)"
  let ?s = "sort_values False (map (\<lambda>c. (c, pearson c target)) ?fs)"
  have c: "corr df pearson target k = Inr (take k ?s)"
    using corr_eq [OF assms] by (simp add: ranked_entries)
  have len: "length ?s = length ?fs"
    by (simp add: sort_values_def length_nargsort)
  have "mset (map fst ?s) = image_mset fst (mset (map (\<lambda>c. (c, pearson c target)) ?fs))"
    by (simp add: sort_values_def mset_nargsort)
  also have "\<dots> = mset (map fst (map (\<lambda>c. (c, pearson c target)) ?fs))"
    by (simp only: mset_map)
  also have "map fst (map (\<lambda>c. (c, pearson c target)) ?fs) = ?fs"
    by (simp add: comp_def)
  finally have "mset (map fst ?s) = mset ?fs" .
  with c len show ?thesis
    by (auto simp: min_def)
qed

lemma select_number_is_int64_float64:
  assumes "\<forall>c \<in> set df. is_number (data c) \<longrightarrow> is_int64_float64 (data c)"
  shows "select_dtypes is_int64_float64 df = all_num df"
proof -
  have "is_int64_float64 s \<Longrightarrow> is_number s" for s
    by (cases s) simp_all
  with assms have "filter (\<lambda>c. is_int64_float64 (data c)) df = filter (\<lambda>c. is_number (data c)) df"
    by (intro filter_cong) auto
  then show ?thesis
    by (simp add: all_num_def select_dtypes_def)
qed

lemma sorted_wrt_first: "sorted_wrt R (x # xs) \<Longrightarrow> y \<in> set xs \<Longrightarrow> R x y"
  by simp

lemma top_is_largest:
  fixes s :: "'l series_of"
  assumes g: "(g, Some v) \<in> set s"
    and others: "\<forall>e \<in> set s. e \<noteq> (g, Some v) \<longrightarrow> (case snd e of None \<Rightarrow> True | Some w \<Rightarrow> w < v)"
  shows "\<exists>rest. sort_values False s = (g, Some v) # rest"
proof -
  let ?s = "sort_values False s"
  have mem: "set ?s = set s"
    by (simp add: sort_values_def set_nargsort)
  with g have "?s \<noteq> []" by auto
  then obtain x rest where xr: "?s = x # rest"
    by (cases ?s) auto
  have srt: "sorted_wrt (\<lambda>e f. ranks_before False (snd e) (snd f)) (x # rest)"
    using sorted_nargsort [of False snd s] by (simp add: sort_values_def xr [symmetric])
  have "x = (g, Some v)"
  proof (rule ccontr)
    assume ne: "x \<noteq> (g, Some v)"
    with g mem xr have "(g, Some v) \<in> set rest" by auto
    with srt have "ranks_before False (snd x) (Some v)"
      by (auto dest: sorted_wrt_first)
    then obtain w where w: "snd x = Some w" "v \<le> w"
      by (auto simp: ranks_before_def split: option.splits)
    from mem xr have "x \<in> set s" by auto
    with others ne w show False by force
  qed
  with xr show ?thesis by simp
qed

lemma sorted_corr:
  assumes "corr df pearson target k = Inr res"
  shows "sorted_wrt (\<lambda>e f. ranks_before False (snd e) (snd f)) res"
proof -
  have t: "target \<in> set (select_dtypes is_int64_float64 df)"
    using assms by (auto simp: corr_def Let_def split: if_splits)
  from corr_eq [OF t] assms show ?thesis
    by (auto simp: sort_values_def intro!: sorted_wrt_take sorted_nargsort)
qed

lemma corr_returns_every_int64_float64_feature:
  assumes "target \<in> set (select_dtypes is_int64_float64 df)"
    and "\<forall>c \<in> set df. is_number (data c) \<longrightarrow> is_int64_float64 (data c)"
    and "num_features df target = Inr feats"
  shows "\<exists>res. corr df pearson target k = Inr res \<and> length res = min k (length feats)
     \<and> (length feats \<le> k \<longrightarrow> mset (map fst res) = mset feats)"
proof -
  have "feats = filter (\<lambda>c. c \<noteq> target) (select_dtypes is_int64_float64 df)"
    using assms(3) by (simp add: num_features_eq select_number_is_int64_float64 [OF assms(2)])
  with corr_ranks_int64_float64 [OF assms(1), of pearson k] show ?thesis
    by simp
qed

text \<open>When the target is one of the int64 and float64 columns, the ranking is returned in
  descending order of the signed coefficient, NaN last; a feature whose coefficient is
  above that of every other ranked feature is its first entry for every k from 1 on.\<close>

lemma top_k_largest_first:
  assumes tgt: "target \<in> set (select_dtypes is_int64_float64 df)"
    and g: "g \<in> set (select_dtypes is_int64_float64 df)" "g \<noteq> target"
      "pearson g target = Some v"
    and o: "\<forall>c \<in> set (select_dtypes is_int64_float64 df). c \<notin> {target, g} \<longrightarrow>
              (case pearson c target of None \<Rightarrow> True | Some w \<Rightarrow> w < v)"
    and k: "1 \<le> k"
  shows "\<exists>rest. corr df pearson target k = Inr ((g, Some v) # rest)
    \<and> sorted_wrt (\<lambda>e f. ranks_before False (snd e) (snd f)) ((g, Some v) # rest)"
proof -
  let ?cols = "select_dtypes is_int64_float64 df"
  let ?s = "filter (\<lambda>e. fst e \<noteq> target) (map (\<lambda>c. (c, pearson c target)) ?cols)"
  have c: "corr df pearson target k = Inr (take k (sort_values False ?s))"
    by (rule corr_eq [OF tgt])
  have gin: "(g, Some v) \<in> set ?s"
    using g by force
  have oth: "\<forall>e \<in> set ?s. e \<noteq> (g, Some v) \<longrightarrow>
      (case snd e of None \<Rightarrow> True | Some w \<Rightarrow> w < v)"
  proof (intro ballI impI)
    fix e assume e: "e \<in> set ?s" "e \<noteq> (g, Some v)"
    then obtain c where c: "c \<in> set ?cols" "c \<noteq> target" "e = (c, pearson c target)"
      by auto
    with e g have "c \<notin> {target, g}" by auto
    with o c show "case snd e of None \<Rightarrow> True | Some w \<Rightarrow> w < v" by auto
  qed
  from top_is_largest [OF gin oth] obtain rest
    where r: "sort_values False ?s = (g, Some v) # rest" by blast
  from k obtain j where j: "k = Suc j"
    by (cases k) auto
  from r j c have "corr df pearson target k = Inr ((g, Some v) # take j rest)"
    by simp
  with sorted_corr [of df pearson target k] show ?thesis
    by auto
qed

text \<open>
  C3 fails on the code, by the column selection of line 138 that C4 fails by. Whatever the
  coefficients are: on the frame whose numeric target t is a uint64 column line 22 takes the
  target for numeric and the ranking raises KeyError for every k; on the frame whose feature
  g is a uint64 column the numeric features are f and g and the ranking for k = 1 is f
  alone, the feature of the coefficient -0.95, and g with its +0.5 is not ranked.
\<close>

theorem top_k_wrong_on_uint64:
  "is_target_numeric big_target_df ''t'' = Inr True
   \<and> corr big_target_df pearson ''t'' k = Inl KeyError
   \<and> num_features big_feature_df ''t'' = Inr [''f'', ''g'']
   \<and> corr big_feature_df pearson ''t'' 1 = Inr [(''f'', pearson ''f'' ''t'')]"
proof -
  have n: "is_target_numeric big_target_df ''t'' = Inr True"
    by code_simp
  have "select_dtypes is_int64_float64 big_target_df = [''f'', ''g'']"
    by code_simp
  then have e: "corr big_target_df pearson ''t'' k = Inl KeyError"
    by (simp add: corr_def)
  have f: "num_features big_feature_df ''t'' = Inr [''f'', ''g'']"
    by code_simp
  have cols: "select_dtypes is_int64_float64 big_feature_df = [''t'', ''f'']"
    by code_simp
  have "sort_values False [(''f'', pearson ''f'' ''t'')] = [(''f'', pearson ''f'' ''t'')]"
    by (cases "pearson ''f'' ''t''") (simp_all add: sort_values_def nargsort_def)
  then have r: "corr big_feature_df pearson ''t'' 1 = Inr [(''f'', pearson ''f'' ''t'')]"
    by (simp add: corr_def cols series_drop_def)
  from n e f r show ?thesis
    by simp
qed

text \<open>
  C4 fails on the code. The feature lists take every column of a number dtype
  (\<^verbatim>\<open>include=["number"]\<close>, line 27), the ranking only the int64 and float64 columns
  (line 138). On a frame with the int64 target t, the int64 feature a and the uint64 feature
  b, the numeric features are a and b and the ranking for k = 5 has one entry, a.
\<close>

theorem top_k_omits_uint64_feature:
  "num_features wide_df ''t'' = Inr [''a'', ''b'']
   \<and> corr wide_df wide_pearson ''t'' 5 = Inr [(''a'', Some (1 / 2))]"
  by code_simp

text \<open>The same selection makes the ranking raise KeyError for a bool target, which line 22
  takes for a numeric one.\<close>

lemma top_k_raises_on_bool_target:
  "is_target_numeric flag_df ''flag'' = Inr True
   \<and> corr flag_df wide_pearson ''flag'' 5 = Inl KeyError"
  by code_simp

subsection \<open>Grouped statistics\<close>

lemma grouped_columns_labels_numeric:
  assumes "getitem df f = Inr (Labels kind keys)" and "getitem df target = Inr (Numeric nk vals)"
  shows "grouped_columns df (Some f) target = Inr (keys, vals)"
  using assms by (simp add: grouped_columns_def)

lemma group_cells:
  "map snd (filter (\<lambda>r. fst r = c) (keyed_rows keys vals)) =
     map snd (filter (\<lambda>(k, v). k = Some c) (zip keys vals))"
  by (induction keys vals rule: keyed_rows.induct) auto

lemma keyed_rows_keys:
  "fst ` set (keyed_rows keys vals) = {c. \<exists>v. (Some c, v) \<in> set (zip keys vals)}"
  by (induction keys vals rule: keyed_rows.induct) auto

lemma groupby_eq:
  "groupby keys vals =
     map (\<lambda>c. (c, map snd (filter (\<lambda>(k, v). k = Some c) (zip keys vals))))
       (sort (remdups (map fst (keyed_rows keys vals))))"
  by (simp add: groupby_def Let_def group_cells)

lemma groupby_keys:
  "map fst (groupby keys vals) = sort (remdups (map fst (keyed_rows keys vals)))"
  by (simp add: groupby_eq comp_def)

lemma distinct_groupby: "distinct (map fst (groupby keys vals))"
  by (simp add: groupby_keys)

lemma set_groupby_keys:
  "set (map fst (groupby keys vals)) = {c. \<exists>v. (Some c, v) \<in> set (zip keys vals)}"
  using keyed_rows_keys [of keys vals] by (simp add: groupby_keys)

lemma groupby_cells:
  "(c, cells) \<in> set (groupby keys vals) \<Longrightarrow>
     cells = map snd (filter (\<lambda>(k, v). k = Some c) (zip keys vals))"
  by (auto simp: groupby_eq)

lemma category_agg: "map category (agg groups) = map fst groups"
  by (induction groups) (auto simp: agg_def)

lemma set_agg:
  "r \<in> set (agg groups) \<longleftrightarrow>
     (\<exists>c cells. (c, cells) \<in> set groups \<and>
        r = \<lparr>category = c, median_val = median_agg cells, std_val = std_agg cells,
             count_val = count_agg cells\<rparr>)"
  by (auto simp: agg_def)

lemma std_agg_small: "length (notna cells) \<le> 1 \<Longrightarrow> std_agg cells = None"
  by (simp add: std_agg_def Let_def)

lemma aggs_single:
  "median_agg [Some x] = Some x" "std_agg [Some x] = None" "count_agg [Some x] = 1"
  by (simp_all add: median_agg_def std_agg_def count_agg_def notna_def List.map_filter_simps)

lemma stats_eq:
  assumes "getitem df f = Inr (Labels kind keys)" and "getitem df target = Inr (Numeric nk vals)"
  shows "stats df (Some f) target = Inr (nargsort median_val True (agg (groupby keys vals)))"
  by (simp add: stats_def grouped_columns_labels_numeric [OF assms])

lemma impact_eq:
  assumes "getitem df f = Inr (Labels kind keys)" and "getitem df target = Inr (Numeric nk vals)"
  shows "impact df (Some f) target =
     Inr (sort_values True (map (\<lambda>(c, cells). (c, median_agg cells)) (groupby keys vals)))"
  by (simp add: impact_def grouped_columns_labels_numeric [OF assms])

lemma filter_distinct_key:
  "distinct (map g xs) \<Longrightarrow> x \<in> set xs \<Longrightarrow> filter (\<lambda>y. g y = g x) xs = [x]"
proof (induction xs)
  case Nil
  then show ?case by simp
next
  case (Cons a xs)
  show ?case
  proof (cases "a = x")
    case True
    with Cons.prems have "g x \<notin> g ` set xs" by simp
    then have "\<forall>y \<in> set xs. g y \<noteq> g x" by (metis imageI)
    then have "filter (\<lambda>y. g y = g x) xs = []" by (simp add: filter_empty_conv)
    with True show ?thesis by simp
  next
    case False
    with Cons.prems have "x \<in> set xs" "g a \<noteq> g x" by auto
    with Cons show ?thesis by simp
  qed
qed

lemma stats_rows:
  fixes keys :: "string option list" and vals :: "real option list"
  defines "rows \<equiv> nargsort median_val True (agg (groupby keys vals))"
  shows "distinct (map category rows)"
    and "set (map category rows) = {c. \<exists>v. (Some c, v) \<in> set (zip keys vals)}"
    and "r \<in> set rows \<Longrightarrow>
          r = \<lparr>category = category r,
               median_val = median_agg (map snd (filter (\<lambda>(k, v). k = Some (category r)) (zip keys vals))),
               std_val = std_agg (map snd (filter (\<lambda>(k, v). k = Some (category r)) (zip keys vals))),
               count_val = count_agg (map snd (filter (\<lambda>(k, v). k = Some (category r)) (zip keys vals)))\<rparr>"
    and "sorted_wrt (\<lambda>a b. ranks_before True (median_val a) (median_val b)) rows"
proof -
  show "distinct (map category rows)"
    by (simp add: rows_def distinct_map_nargsort category_agg distinct_groupby)
  have "set (map category rows) = set (map category (agg (groupby keys vals)))"
    unfolding rows_def set_map set_nargsort ..
  then show "set (map category rows) = {c. \<exists>v. (Some c, v) \<in> set (zip keys vals)}"
    by (simp only: category_agg set_groupby_keys)
  show "sorted_wrt (\<lambda>a b. ranks_before True (median_val a) (median_val b)) rows"
    unfolding rows_def by (rule sorted_nargsort)
  assume "r \<in> set rows"
  then have "r \<in> set (agg (groupby keys vals))"
    by (simp add: rows_def set_nargsort)
  then obtain c cells where g: "(c, cells) \<in> set (groupby keys vals)"
    and r: "r = \<lparr>category = c, median_val = median_agg cells, std_val = std_agg cells,
             count_val = count_agg cells\<rparr>"
    by (auto simp: set_agg)
  from groupby_cells [OF g] r
  show "r = \<lparr>category = category r,
               median_val = median_agg (map snd (filter (\<lambda>(k, v). k = Some (category r)) (zip keys vals))),
               std_val = std_agg (map snd (filter (\<lambda>(k, v). k = Some (category r)) (zip keys vals))),
               count_val = count_agg (map snd (filter (\<lambda>(k, v). k = Some (category r)) (zip keys vals)))\<rparr>"
    by simp
qed

lemma impact_series:
  fixes keys :: "string option list" and vals :: "real option list"
  defines "s \<equiv> sort_values True (map (\<lambda>(c, cells). (c, median_agg cells)) (groupby keys vals))"
  shows "distinct (map fst s)"
    and "set s = (\<lambda>c. (c, median_agg (map snd (filter (\<lambda>(k, v). k = Some c) (zip keys vals)))))
                  ` {c. \<exists>v. (Some c, v) \<in> set (zip keys vals)}"
    and "sorted_wrt (\<lambda>a b. ranks_before True (snd a) (snd b)) s"
proof -
  have m: "map fst (map (\<lambda>(c, cells). (c, median_agg cells)) gs) = map fst gs"
    for gs :: "(string \<times> real option list) list"
    by (induction gs) auto
  show "distinct (map fst s)"
    by (simp only: s_def sort_values_def distinct_map_nargsort m distinct_groupby)
  show "sorted_wrt (\<lambda>a b. ranks_before True (snd a) (snd b)) s"
    unfolding s_def sort_values_def by (rule sorted_nargsort)
  have "set s = (\<lambda>(c, cells). (c, median_agg cells)) ` set (groupby keys vals)"
    by (simp add: s_def sort_values_def set_nargsort)
  also have "\<dots> = (\<lambda>c. (c, median_agg (map snd (filter (\<lambda>(k, v). k = Some c) (zip keys vals)))))
                  ` set (map fst (groupby keys vals))"
    by (simp add: groupby_eq image_image)
  finally show "set s = (\<lambda>c. (c, median_agg (map snd (filter (\<lambda>(k, v). k = Some c) (zip keys vals)))))
                  ` {c. \<exists>v. (Some c, v) \<in> set (zip keys vals)}"
    by (simp only: set_groupby_keys)
qed

lemma region_columns:
  "getitem region_df ''region'' = Inr (Labels Object region_keys)"
  "getitem region_df ''price'' = Inr (Numeric Float64 price_cells)"
  by (simp_all add: getitem_def region_df_def)

lemma stats_returns:
  assumes "getitem df f = Inr (Labels kind keys)" and "getitem df target = Inr (Numeric nk vals)"
  shows "\<exists>rows. stats df (Some f) target = Inr rows"
  by (simp add: stats_eq [OF assms])

text \<open>
  C9. For a feature column of labels and a target column of numbers, both analyses return.
  The table of line 212 has one row for each category that occurs in the feature column, the
  row holds the median, the sample deviation and the count of the target's values in the
  rows of that category, and the rows are in ascending order of the median, a NaN median
  last. The series of line 201 has the median of each category, in the same order. The
  median and the deviation are computed exactly; the order and the categories do not depend
  on that.
\<close>

theorem grouped_stats_sorted_by_median:
  assumes "getitem df f = Inr (Labels kind keys)" and "getitem df target = Inr (Numeric nk vals)"
  shows "\<exists>rows s. stats df (Some f) target = Inr rows \<and> impact df (Some f) target = Inr s
    \<and> distinct (map category rows)
    \<and> set (map category rows) = {c. \<exists>v. (Some c, v) \<in> set (zip keys vals)}
    \<and> (\<forall>r \<in> set rows.
          median_val r = median_agg (map snd (filter (\<lambda>(k, v). k = Some (category r)) (zip keys vals)))
        \<and> std_val r = std_agg (map snd (filter (\<lambda>(k, v). k = Some (category r)) (zip keys vals)))
        \<and> count_val r = count_agg (map snd (filter (\<lambda>(k, v). k = Some (category r)) (zip keys vals))))
    \<and> sorted_wrt (\<lambda>a b. ranks_before True (median_val a) (median_val b)) rows
    \<and> distinct (map fst s)
    \<and> set s = (\<lambda>c. (c, median_agg (map snd (filter (\<lambda>(k, v). k = Some c) (zip keys vals)))))
                  ` {c. \<exists>v. (Some c, v) \<in> set (zip keys vals)}
    \<and> sorted_wrt (\<lambda>a b. ranks_before True (snd a) (snd b)) s"
proof -
  let ?rows = "nargsort median_val True (agg (groupby keys vals))"
  let ?s = "sort_values True (map (\<lambda>(c, cells). (c, median_agg cells)) (groupby keys vals))"
  have fields: "median_val r = median_agg (map snd (filter (\<lambda>(k, v). k = Some (category r)) (zip keys vals)))
        \<and> std_val r = std_agg (map snd (filter (\<lambda>(k, v). k = Some (category r)) (zip keys vals)))
        \<and> count_val r = count_agg (map snd (filter (\<lambda>(k, v). k = Some (category r)) (zip keys vals)))"
    if "r \<in> set ?rows" for r
    using stats_rows(3) [OF that] by (metis stats_row.select_convs(2,3,4))
  show ?thesis
    using stats_eq [OF assms] impact_eq [OF assms] stats_rows(1,2,4) [of keys vals] fields
      impact_series [of keys vals]
    by (intro exI [of _ ?rows] exI [of _ ?s] conjI ballI) blast+
qed

theorem grouped_stats_sorted_by_median_witness:
  "getitem region_df ''region'' = Inr (Labels Object region_keys)
   \<and> getitem region_df ''price'' = Inr (Numeric Float64 price_cells)
   \<and> (\<exists>rows s. stats region_df (Some ''region'') ''price'' = Inr rows
        \<and> impact region_df (Some ''region'') ''price'' = Inr s
        \<and> distinct (map category rows)
        \<and> set (map category rows) = {c. \<exists>v. (Some c, v) \<in> set (zip region_keys price_cells)}
        \<and> (\<forall>r \<in> set rows.
              median_val r = median_agg (map snd (filter (\<lambda>(k, v). k = Some (category r)) (zip region_keys price_cells)))
            \<and> std_val r = std_agg (map snd (filter (\<lambda>(k, v). k = Some (category r)) (zip region_keys price_cells)))
            \<and> count_val r = count_agg (map snd (filter (\<lambda>(k, v). k = Some (category r)) (zip region_keys price_cells))))
        \<and> sorted_wrt (\<lambda>a b. ranks_before True (median_val a) (median_val b)) rows
        \<and> distinct (map fst s)
        \<and> set s = (\<lambda>c. (c, median_agg (map snd (filter (\<lambda>(k, v). k = Some c) (zip region_keys price_cells)))))
                  ` {c. \<exists>v. (Some c, v) \<in> set (zip region_keys price_cells)}
        \<and> sorted_wrt (\<lambda>a b. ranks_before True (snd a) (snd b)) s)"
  using grouped_stats_sorted_by_median [OF region_columns] region_columns by simp

text \<open>
  C7. When the rows of a category are one row, and that row has a value of the target, the
  call returns and the table has exactly one row for the category: its count is 1, its
  median is that value and its deviation is NaN.
\<close>

theorem single_observation_group:
  assumes "getitem df f = Inr (Labels kind keys)" and "getitem df target = Inr (Numeric nk vals)"
    and "filter (\<lambda>(k, v). k = Some c) (zip keys vals) = [(Some c, Some x)]"
  shows "\<exists>rows. stats df (Some f) target = Inr rows
    \<and> filter (\<lambda>r. category r = c) rows =
        [\<lparr>category = c, median_val = Some x, std_val = None, count_val = 1\<rparr>]"
proof -
  let ?rows = "nargsort median_val True (agg (groupby keys vals))"
  let ?r = "\<lparr>category = c, median_val = Some x, std_val = None, count_val = 1\<rparr>"
  have "(Some c, Some x) \<in> set (filter (\<lambda>(k, v). k = Some c) (zip keys vals))"
    by (simp add: assms(3))
  then have "(Some c, Some x) \<in> set (zip keys vals)"
    by simp
  then have "c \<in> set (map category ?rows)"
    unfolding stats_rows(2) by blast
  then obtain r where r: "r \<in> set ?rows" "category r = c"
    by auto
  from stats_rows(3) [OF r(1)] r(2) assms(3) have "r = ?r"
    by (simp add: aggs_single)
  moreover from filter_distinct_key [OF stats_rows(1) r(1)] r(2)
  have "filter (\<lambda>y. category y = c) ?rows = [r]"
    by simp
  ultimately show ?thesis
    using stats_eq [OF assms(1,2)] by simp
qed

theorem single_observation_group_witness:
  "getitem region_df ''region'' = Inr (Labels Object region_keys)
   \<and> getitem region_df ''price'' = Inr (Numeric Float64 price_cells)
   \<and> filter (\<lambda>(k, v). k = Some ''B'') (zip region_keys price_cells) = [(Some ''B'', Some 7)]
   \<and> (\<exists>rows. stats region_df (Some ''region'') ''price'' = Inr rows
        \<and> filter (\<lambda>r. category r = ''B'') rows =
            [\<lparr>category = ''B'', median_val = Some 7, std_val = None, count_val = 1\<rparr>])"
proof -
  have b: "filter (\<lambda>(k, v). k = Some ''B'') (zip region_keys price_cells) = [(Some ''B'', Some 7)]"
    by (simp add: region_keys_def price_cells_def)
  from single_observation_group [OF region_columns b] region_columns b show ?thesis
    by simp
qed

text \<open>A group with at most one value of the target has no deviation, whatever its rows: a
  single row whose target is missing gives the count 0.\<close>

lemma small_group_std_nan:
  assumes "getitem df f = Inr (Labels kind keys)" and "getitem df target = Inr (Numeric nk vals)"
    and "stats df (Some f) target = Inr rows" and "r \<in> set rows" and "count_val r \<le> 1"
  shows "std_val r = None"
proof -
  from assms(3) have rows: "rows = nargsort median_val True (agg (groupby keys vals))"
    by (simp add: stats_eq [OF assms(1,2)])
  from assms(4) have "r \<in> set (agg (groupby keys vals))"
    by (simp add: rows set_nargsort)
  then obtain c cells where "r = \<lparr>category = c, median_val = median_agg cells,
      std_val = std_agg cells, count_val = count_agg cells\<rparr>"
    by (auto simp: set_agg)
  with assms(5) show ?thesis
    by (simp add: count_agg_def std_agg_small)
qed

subsection \<open>Too few numeric features\<close>

text \<open>
  C8. With fewer than two numeric features the multicollinearity section returns the note
  "Not enough numerical features for correlation analysis." and no table, not even an empty
  one. It neither raises nor stops the run: whatever statements follow the section run, with
  the note shown.
\<close>

theorem insufficient_features_signal:
  assumes "num_features df target = Inr feats" and "length feats < 2"
  shows "multicollinearity df pearson target =
           Inr (Info ''Not enough numerical features for correlation analysis.'')
    \<and> multicollinearity df pearson target \<noteq> Inr (Dataframe [])
    \<and> and_then (multicollinearity df pearson target) rest =
        rest (Info ''Not enough numerical features for correlation analysis.'')"
proof -
  have m: "multicollinearity df pearson target =
           Inr (Info ''Not enough numerical features for correlation analysis.'')"
    using assms by (simp add: multicollinearity_def)
  then show ?thesis
    by (simp add: and_then_def)
qed

theorem insufficient_features_signal_witness:
  "num_features shop_df ''price'' = Inr [''size''] \<and> length [''size''] < 2
   \<and> multicollinearity shop_df shop_pearson ''price'' =
        Inr (Info ''Not enough numerical features for correlation analysis.'')
   \<and> multicollinearity shop_df shop_pearson ''price'' \<noteq> Inr (Dataframe [])
   \<and> and_then (multicollinearity shop_df shop_pearson ''price'')
        (\<lambda>shown. impact shop_df (Some ''region'') ''price'') =
      Inr [(''A'', Some (3 / 2)), (''B'', Some 3)]"
proof -
  have n: "num_features shop_df ''price'' = Inr [''size'']"
    by code_simp
  have l: "length [''size''] < 2"
    by simp
  have i: "impact shop_df (Some ''region'') ''price'' = Inr [(''A'', Some (3 / 2)), (''B'', Some 3)]"
    by code_simp
  from insufficient_features_signal [OF n l, of shop_pearson
      "\<lambda>shown. impact shop_df (Some ''region'') ''price''"]
  have "multicollinearity shop_df shop_pearson ''price'' =
        Inr (Info ''Not enough numerical features for correlation analysis.'')
   \<and> multicollinearity shop_df shop_pearson ''price'' \<noteq> Inr (Dataframe [])
   \<and> and_then (multicollinearity shop_df shop_pearson ''price'')
        (\<lambda>shown. impact shop_df (Some ''region'') ''price'') =
      impact shop_df (Some ''region'') ''price''"
    by blast
  then have a: "multicollinearity shop_df shop_pearson ''price'' =
        Inr (Info ''Not enough numerical features for correlation analysis.'')"
    and b: "multicollinearity shop_df shop_pearson ''price'' \<noteq> Inr (Dataframe [])"
    and c: "and_then (multicollinearity shop_df shop_pearson ''price'')
        (\<lambda>shown. impact shop_df (Some ''region'') ''price'') =
      impact shop_df (Some ''region'') ''price''"
    by blast+
  from c i have "and_then (multicollinearity shop_df shop_pearson ''price'')
        (\<lambda>shown. impact shop_df (Some ''region'') ''price'') =
      Inr [(''A'', Some (3 / 2)), (''B'', Some 3)]"
    by (rule trans)
  with n l a b show ?thesis
    by blast
qed

subsection \<open>The categorical branch\<close>

lemma getitem_column:
  assumes "getitem df l = Inr s"
  shows "\<exists>c \<in> set df. label c = l \<and> data c = s"
proof -
  from assms obtain c where c: "find (\<lambda>c. label c = l) df = Some c" "data c = s"
    by (auto simp: getitem_def split: option.splits)
  from c(1) have "c \<in> set df \<and> label c = l"
    by (induction df) (auto split: if_splits)
  with c(2) show ?thesis by blast
qed

lemma dated_columns: "getitem dated_df ''signup'' = Inr (Datetime64 [Some 1700000000, Some 1700086400])"
  by (simp add: getitem_def dated_df_def)

lemma churned_column:
  "getitem churn_df ''churned'' = Inr (Labels Category [Some ''no'', Some ''yes'', Some ''no''])"
  by (simp add: getitem_def churn_df_def)

text \<open>
  C10. In the categorical branch, on a frame with unique column labels, line 291 returns the
  object and category columns without the target when the target is itself an object or
  category column, and raises KeyError when the target has any other dtype that is not
  numeric, such as datetime64.
\<close>

theorem cat_for_class_needs_label_target:
  assumes "distinct (map label df)" and "getitem df target = Inr s" and "\<not> is_numeric_dtype s"
  shows "(is_object_category s \<longrightarrow>
            cat_for_class df target =
              Inr (filter (\<lambda>c. c \<noteq> target) (select_dtypes is_object_category df)))
       \<and> (\<not> is_object_category s \<longrightarrow> cat_for_class df target = Inl KeyError)"
proof (cases "is_object_category s")
  case True
  from getitem_column [OF assms(2)] obtain c
    where "c \<in> set df" "label c = target" "data c = s" by blast
  with True have "target \<in> set (select_dtypes is_object_category df)"
    by (auto simp: select_dtypes_def)
  with True show ?thesis
    by (simp add: cat_for_class_def index_drop_def)
next
  case False
  from unselected_column [of df target s is_object_category] assms(1,2) False show ?thesis
    by (simp add: cat_for_class_def index_drop_def)
qed

theorem cat_for_class_needs_label_target_witness:
  "distinct (map label churn_df)
   \<and> getitem churn_df ''churned'' = Inr (Labels Category [Some ''no'', Some ''yes'', Some ''no''])
   \<and> \<not> is_numeric_dtype (Labels Category [Some ''no'', Some ''yes'', Some ''no''])
   \<and> is_object_category (Labels Category [Some ''no'', Some ''yes'', Some ''no''])
   \<and> cat_for_class churn_df ''churned'' = Inr [''city'']
   \<and> distinct (map label dated_df)
   \<and> getitem dated_df ''signup'' = Inr (Datetime64 [Some 1700000000, Some 1700086400])
   \<and> \<not> is_numeric_dtype (Datetime64 [Some 1700000000, Some 1700086400])
   \<and> \<not> is_object_category (Datetime64 [Some 1700000000, Some 1700086400])
   \<and> cat_for_class dated_df ''signup'' = Inl KeyError"
proof -
  have d1: "distinct (map label churn_df)" by code_simp
  have d2: "distinct (map label dated_df)" by code_simp
  have sel: "filter (\<lambda>c. c \<noteq> ''churned'') (select_dtypes is_object_category churn_df) = [''city'']"
    by code_simp
  from cat_for_class_needs_label_target [OF d1 churned_column]
       cat_for_class_needs_label_target [OF d2 dated_columns]
       d1 d2 churned_column dated_columns sel
  show ?thesis by simp
qed

subsection \<open>The contingency table\<close>

lemma set_complete_pairs:
  "set (complete_pairs index columns) = {(r, c). (Some r, Some c) \<in> set (zip index columns)}"
  by (induction index columns rule: complete_pairs.induct) auto

lemma sum_list_shares:
  fixes ns :: "nat list"
  shows "sum_list (map (\<lambda>n. real n / d) ns) = real (sum_list ns) / d"
  by (induction ns) (simp_all add: add_divide_distrib)

lemma shares_sum_to_one:
  fixes ns :: "nat list"
  assumes "0 < sum_list ns"
  shows "sum_list (map (\<lambda>n. real n / real (sum_list ns)) ns) = 1"
proof -
  from assms have "0 < real (sum_list ns)"
    by (simp only: of_nat_0_less_iff)
  then have "real (sum_list ns) / real (sum_list ns) = 1"
    by (metis divide_self less_irrefl)
  then show ?thesis
    by (simp only: sum_list_shares)
qed

lemma row_total_positive:
  assumes "(r, c) \<in> set pairs" and "c \<in> set cs"
  shows "0 < sum_list (map (\<lambda>c. count_list pairs (r, c)) cs)"
proof -
  from assms(1) have "0 < count_list pairs (r, c)"
    by (metis count_list_0_iff gr0I)
  moreover from assms(2) have "count_list pairs (r, c) \<le> sum_list (map (\<lambda>c. count_list pairs (r, c)) cs)"
    by (intro member_le_sum_list) auto
  ultimately show ?thesis by linarith
qed

lemma crosstab_rows:
  "crosstab index columns =
     map (\<lambda>r. (r, row_of (complete_pairs index columns)
                    (sort (remdups (map snd (complete_pairs index columns)))) r))
       (sort (remdups (map fst (complete_pairs index columns))))"
  by (simp add: crosstab_def row_of_def Let_def)

lemma row_of_values:
  "map snd (row_of pairs cs r) =
     (let ns = map (\<lambda>c. count_list pairs (r, c)) cs
      in map (\<lambda>n. if sum_list ns = 0 then 0 else real n / real (sum_list ns)) ns)"
  by (simp add: row_of_def Let_def comp_def)

lemma row_of_labels: "map fst (row_of pairs cs r) = cs"
  by (simp add: row_of_def Let_def comp_def)

lemma row_of_sum:
  assumes "(r, c) \<in> set pairs" and "c \<in> set cs"
  shows "sum_list (map snd (row_of pairs cs r)) = 1"
proof -
  let ?ns = "map (\<lambda>c. count_list pairs (r, c)) cs"
  have pos: "0 < sum_list ?ns"
    by (rule row_total_positive [OF assms])
  then have "map snd (row_of pairs cs r) = map (\<lambda>n. real n / real (sum_list ?ns)) ?ns"
    by (simp add: row_of_values Let_def del: map_map)
  with shares_sum_to_one [OF pos] show ?thesis
    by simp
qed

lemma row_of_range:
  assumes "e \<in> set (row_of pairs cs r)"
  shows "0 \<le> snd e \<and> snd e \<le> 1"
proof -
  let ?ns = "map (\<lambda>c. count_list pairs (r, c)) cs"
  let ?share = "\<lambda>n. if sum_list ?ns = 0 then 0 else real n / real (sum_list ?ns)"
  from assms have "snd e \<in> set (map snd (row_of pairs cs r))"
    by force
  also have "map snd (row_of pairs cs r) = map ?share ?ns"
    by (simp only: row_of_values Let_def)
  finally have "snd e \<in> ?share ` set ?ns"
    by (simp only: set_map)
  then obtain n where n: "n \<in> set ?ns" "snd e = ?share n"
    by blast
  from n(1) have le: "n \<le> sum_list ?ns"
    by (intro member_le_sum_list) auto
  show ?thesis
  proof (cases "sum_list ?ns = 0")
    case True
    with n(2) have "snd e = 0" by (simp only: if_True simp_thms)
    then show ?thesis by simp
  next
    case False
    then have "0 < sum_list ?ns"
      by (rule neq0_conv [THEN iffD1])
    then have pos: "0 < real (sum_list ?ns)"
      by (simp only: of_nat_0_less_iff)
    from le have "real n \<le> real (sum_list ?ns)"
      by (simp only: of_nat_le_iff)
    with pos have "0 \<le> real n / real (sum_list ?ns) \<and> real n / real (sum_list ?ns) \<le> 1"
      by (simp only: divide_le_eq_1_pos zero_le_divide_iff of_nat_0_le_iff) simp
    with False n(2) show ?thesis
      by (simp only: if_False)
  qed
qed

lemma sort_index_facts:
  "sorted (map fst (sort_index t))"
  "set (sort_index t) = set t"
  "distinct (map fst (sort_index t)) = distinct (map fst t)"
proof -
  show "sorted (map fst (sort_index t))" "set (sort_index t) = set t"
    by (simp_all add: sort_index_def)
  have "mset (map fst (sort_index t)) = mset (map fst t)"
    by (simp add: sort_index_def)
  then show "distinct (map fst (sort_index t)) = distinct (map fst t)"
    by (rule mset_eq_imp_distinct_iff)
qed

lemma class_crosstab_eq:
  assumes "getitem df f = Inr (Labels fk index)" and "getitem df target = Inr (Labels tk columns)"
  shows "class_crosstab df (Some f) target = Inr (sort_index (crosstab index columns))"
  using assms by (simp add: class_crosstab_def)

lemma city_column:
  "getitem churn_df ''city'' = Inr (Labels Category [Some ''Pune'', Some ''Agra'', Some ''Pune''])"
  by (simp add: getitem_def churn_df_def)

text \<open>
  C5. For a feature column and a target column of labels the table is returned. It has one
  row for each label of the feature that occurs in a row where the target is present too;
  the cells of every row are between 0 and 1 and sum to 1; the rows are in ascending order
  of their label, each label once. The shares are exact quotients here: the sum is 1 where
  the floats of pandas sum to 1 up to rounding.
\<close>

theorem crosstab_rows_normalized_sorted:
  assumes "getitem df f = Inr (Labels fk index)" and "getitem df target = Inr (Labels tk columns)"
  shows "\<exists>tab. class_crosstab df (Some f) target = Inr tab
    \<and> (\<forall>row \<in> set tab. sum_list (map snd (snd row)) = 1
          \<and> (\<forall>e \<in> set (snd row). 0 \<le> snd e \<and> snd e \<le> 1))
    \<and> sorted (map fst tab) \<and> distinct (map fst tab)
    \<and> set (map fst tab) = {r. \<exists>c. (Some r, Some c) \<in> set (zip index columns)}"
proof -
  let ?pairs = "complete_pairs index columns"
  let ?cs = "sort (remdups (map snd ?pairs))"
  let ?rs = "sort (remdups (map fst ?pairs))"
  let ?tab = "sort_index (crosstab index columns)"
  have rows: "sum_list (map snd (snd row)) = 1 \<and> (\<forall>e \<in> set (snd row). 0 \<le> snd e \<and> snd e \<le> 1)"
    if "row \<in> set ?tab" for row
  proof -
    from that have "row \<in> set (crosstab index columns)"
      by (simp only: sort_index_facts(2))
    then obtain r where r: "r \<in> set ?rs" "row = (r, row_of ?pairs ?cs r)"
      unfolding crosstab_rows by auto
    from r(1) obtain c where c: "(r, c) \<in> set ?pairs"
      by auto
    then have "c \<in> set ?cs"
      by force
    from row_of_sum [OF c this] r(2) row_of_range [of _ ?pairs ?cs r] show ?thesis
      by simp
  qed
  have labels: "map fst (crosstab index columns) = ?rs"
    by (simp add: crosstab_rows comp_def)
  have "distinct (map fst ?tab)"
    by (simp only: sort_index_facts(3) labels) simp
  moreover have "set (map fst ?tab) = {r. \<exists>c. (Some r, Some c) \<in> set (zip index columns)}"
  proof -
    have "set (map fst ?tab) = set (map fst (crosstab index columns))"
      by (simp only: set_map sort_index_facts(2))
    also have "\<dots> = set ?rs"
      by (simp only: labels)
    also have "\<dots> = fst ` set ?pairs"
      by simp
    also have "\<dots> = {r. \<exists>c. (Some r, Some c) \<in> set (zip index columns)}"
      by (force simp: set_complete_pairs)
    finally show ?thesis .
  qed
  ultimately show ?thesis
    using class_crosstab_eq [OF assms] rows sort_index_facts(1) [of "crosstab index columns"]
    by (intro exI [of _ ?tab] conjI ballI) blast+
qed

theorem crosstab_rows_normalized_sorted_witness:
  "getitem churn_df ''city'' = Inr (Labels Category [Some ''Pune'', Some ''Agra'', Some ''Pune''])
   \<and> getitem churn_df ''churned'' = Inr (Labels Category [Some ''no'', Some ''yes'', Some ''no''])
   \<and> (\<exists>tab. class_crosstab churn_df (Some ''city'') ''churned'' = Inr tab
    \<and> (\<forall>row \<in> set tab. sum_list (map snd (snd row)) = 1
          \<and> (\<forall>e \<in> set (snd row). 0 \<le> snd e \<and> snd e \<le> 1))
    \<and> sorted (map fst tab) \<and> distinct (map fst tab)
    \<and> set (map fst tab) = {r. \<exists>c. (Some r, Some c) \<in>
          set (zip [Some ''Pune'', Some ''Agra'', Some ''Pune''] [Some ''no'', Some ''yes'', Some ''no''])})"
  using crosstab_rows_normalized_sorted [OF city_column churned_column] city_column churned_column
  by simp

text \<open>The table of the example frame.\<close>

lemma crosstab_example:
  "class_crosstab churn_df (Some ''city'') ''churned'' =
     Inr [(''Agra'', [(''no'', 0), (''yes'', 1)]), (''Pune'', [(''no'', 1), (''yes'', 0)])]"
  by code_simp

end
